theory Spec2Isabelle
  imports Complex_Main "HOL-Library.Word"
begin

unbundle bit_operations_syntax

section \<open>The MPL115A2 driver (src/mpl115a2.py)\<close>

text \<open>
  The driver is one Python class. Its methods talk to an I2C bus through the
  quick2wire library, sleep once, and compute on Python integers and floats.
  The embedding keeps these apart:
  \<^item> exceptions are values of \<open>error\<close>, and a method returns \<open>error + 'a\<close> together
    with the state it leaves behind (an exception keeps the effects made before it);
  \<^item> the bus is a parameter: any function from a bus state and a transaction to an
    outcome and a new bus state. The driver's state pairs the bus state with the list
    of the effects issued so far (transactions and sleeps), in order;
  \<^item> the instance's integer attributes are the association list that \<open>__init__\<close>
    builds, and reading an attribute that was never assigned is an \<open>AttributeError\<close>;
  \<^item> Python integers are \<open>int\<close>, the elements of a \<open>bytearray\<close> are \<open>8 word\<close>;
  \<^item> float arithmetic is a parameter as well: a record of the operations the code
    applies. Theorems hold for every such record; \<open>binary64\<close> below is the instance
    used to run the model.
\<close>

subsection \<open>Exceptions and the result of a method\<close>

datatype error =
    IOError string
  | ValueError string
  | AttributeError string
  | IndexError
  | TypeError

type_synonym ('s, 'a) py = "'s \<Rightarrow> (error + 'a) \<times> 's"

definition py_return :: "'a \<Rightarrow> ('s, 'a) py" where
  "py_return x s = (Inr x, s)"

definition py_raise :: "error \<Rightarrow> ('s, 'a) py" where
  "py_raise e s = (Inl e, s)"

definition py_lift :: "error + 'a \<Rightarrow> ('s, 'a) py" where
  "py_lift r s = (r, s)"

definition py_bind :: "('s, 'a) py \<Rightarrow> ('a \<Rightarrow> ('s, 'b) py) \<Rightarrow> ('s, 'b) py" where
  "py_bind m f s = (case m s of (Inl e, s') \<Rightarrow> (Inl e, s') | (Inr x, s') \<Rightarrow> f x s')"

text \<open>\<open>try: m except IOError: h\<close>. Only an \<open>IOError\<close> is caught.\<close>

definition py_except_IOError :: "('s, 'a) py \<Rightarrow> ('s, 'a) py \<Rightarrow> ('s, 'a) py" where
  "py_except_IOError m h s =
     (case m s of
        (Inl (IOError d), s') \<Rightarrow> h s'
      | (r, s') \<Rightarrow> (r, s'))"

text \<open>Sequencing of pure steps that may raise.\<close>

definition err_bind :: "error + 'a \<Rightarrow> ('a \<Rightarrow> error + 'b) \<Rightarrow> error + 'b" where
  "err_bind r f = (case r of Inl e \<Rightarrow> Inl e | Inr x \<Rightarrow> f x)"

subsection \<open>The bus, the clock and the trace of effects\<close>

type_synonym byte = "8 word"

text \<open>
  The two quick2wire messages the driver builds: \<open>writing_bytes(addr, *bytes)\<close> and
  \<open>reading(addr, n)\<close>. \<open>I2CMaster.transaction(*msgs)\<close> either raises \<open>IOError\<close>
  (\<open>Inl\<close>, with the library's own description) or returns one byte string per
  \<open>reading\<close> message.
\<close>

datatype message = writing_bytes int "int list" | reading int int

type_synonym 'b i2c = "'b \<Rightarrow> message list \<Rightarrow> (string + byte list list) \<times> 'b"

datatype 'f effect = Transaction "message list" | Sleep 'f

record ('b, 'f) world =
  bus :: 'b
  effects :: "'f effect list"

definition transaction :: "'b i2c \<Rightarrow> message list \<Rightarrow> (('b, 'f) world, byte list list) py" where
  "transaction master msgs s =
     (case master (bus s) msgs of
        (r, b') \<Rightarrow>
          ((case r of Inl d \<Rightarrow> Inl (IOError d) | Inr res \<Rightarrow> Inr res),
           s\<lparr>bus := b', effects := effects s @ [Transaction msgs]\<rparr>))"

definition sleep :: "'f \<Rightarrow> (('b, 'f) world, unit) py" where
  "sleep secs s = (Inr (), s\<lparr>effects := effects s @ [Sleep secs]\<rparr>)"

subsection \<open>The instance\<close>

type_synonym mpl115a2 = "(string \<times> int) list"

text \<open>
  \<open>__init__\<close> (lines 25-46). \<open>self.__addr\<close> is stored under its mangled name. The
  bus handles \<open>__i2c\<close> and \<open>__i2cMaster\<close> are the \<open>i2c\<close> parameter of the methods.
\<close>

definition mpl115a2_init :: "int \<Rightarrow> mpl115a2" where
  "mpl115a2_init mpl115a2Addr =
     [(''_mpl115a2__addr'', mpl115a2Addr),
      (''regPadcMSB'', 0x00),
      (''regPadcLSB'', 0x01),
      (''regTadcMSB'', 0x02),
      (''regTadcLSB'', 0x03),
      (''regA0MSB'', 0x04),
      (''regA0LSB'', 0x05),
      (''regB1MSB'', 0x06),
      (''regB1LSB'', 0x07),
      (''regB2MSB'', 0x08),
      (''regB2LSB'', 0x09),
      (''regC12MSB'', 0x0a),
      (''regC12LSB'', 0x0b),
      (''regConvert'', 0x12)]"

definition getattr :: "mpl115a2 \<Rightarrow> string \<Rightarrow> ('s, int) py" where
  "getattr self name =
     (case map_of self name of
        None \<Rightarrow> py_raise (AttributeError name)
      | Some v \<Rightarrow> py_return v)"

subsection \<open>Register access\<close>

text \<open>
  \<open>__readReg\<close> (lines 48-65). \<open>res[0]\<close> raises \<open>IndexError\<close> on an empty result and
  \<open>ord\<close> raises \<open>TypeError\<close> unless the byte string has length one; neither is caught.
\<close>

definition readReg :: "'b i2c \<Rightarrow> mpl115a2 \<Rightarrow> int \<Rightarrow> (('b, 'f) world, int) py" where
  "readReg master self register =
     py_except_IOError
       (py_bind (getattr self ''_mpl115a2__addr'') (\<lambda>addr.
        py_bind (transaction master [writing_bytes addr [register], reading addr 1]) (\<lambda>res.
          case res of
            [] \<Rightarrow> py_raise IndexError
          | r # _ \<Rightarrow> (case r of [c] \<Rightarrow> py_return (uint c) | _ \<Rightarrow> py_raise TypeError))))
       (py_raise (IOError ''mpl115a2 IO Error: Failed to read MPL115A2 sensor on I2C bus.''))"

text \<open>\<open>__readRegRange\<close> (lines 67-85). There is no \<open>try\<close> here.\<close>

definition readRegRange ::
    "'b i2c \<Rightarrow> mpl115a2 \<Rightarrow> int \<Rightarrow> int \<Rightarrow> (('b, 'f) world, byte list) py" where
  "readRegRange master self regStart regEnd =
     (let regCount = (regEnd - regStart) + 1 in
      py_bind (getattr self ''_mpl115a2__addr'') (\<lambda>addr.
      py_bind (transaction master [writing_bytes addr [regStart], reading addr regCount]) (\<lambda>regRange.
        case regRange of
          [] \<Rightarrow> py_raise IndexError
        | r # _ \<Rightarrow> py_return r)))"

text \<open>\<open>__writeReg\<close> (lines 87-97).\<close>

definition writeReg :: "'b i2c \<Rightarrow> mpl115a2 \<Rightarrow> int \<Rightarrow> int \<Rightarrow> (('b, 'f) world, unit) py" where
  "writeReg master self register byte =
     py_except_IOError
       (py_bind (getattr self ''_mpl115a2__addr'') (\<lambda>addr.
        py_bind (transaction master [writing_bytes addr [register, byte]]) (\<lambda>_.
          py_return ())))
       (py_raise (IOError ''mpl115a2 IO Error: Failed to write to MPL115A2 sensor on I2C bus.''))"

text \<open>
  \<open>setReg\<close> (lines 171-182). \<open>and\<close> evaluates its right operand only when the left
  one is true; each operand reads its attribute before comparing.
\<close>

definition setReg :: "'b i2c \<Rightarrow> mpl115a2 \<Rightarrow> int \<Rightarrow> int \<Rightarrow> (('b, 'f) world, unit) py" where
  "setReg master self register value =
     py_bind (getattr self ''regCfgA'') (\<lambda>regCfgA.
       if register \<ge> regCfgA then
         py_bind (getattr self ''regMode'') (\<lambda>regMode.
           if register \<le> regMode then writeReg master self register value
           else py_raise (ValueError ''MPL115A2 register must be writable to set it.''))
       else py_raise (ValueError ''MPL115A2 register must be writable to set it.''))"

subsection \<open>Two's complement\<close>

text \<open>
  \<open>__getSigned\<close> (lines 99-116). Python refuses a negative shift count with
  \<open>ValueError\<close>, which \<open>1 << (bits - 1)\<close> meets when \<open>bits < 1\<close>.
\<close>

definition getSigned :: "int \<Rightarrow> int \<Rightarrow> error + int" where
  "getSigned unsigned' bits =
     (if bits - 1 < 0 then Inl (ValueError ''negative shift count'')
      else if (unsigned' AND push_bit (nat (bits - 1)) 1) \<noteq> 0
        then Inr (unsigned' - push_bit (nat bits) 1)
        else Inr unsigned')"

subsection \<open>Float arithmetic\<close>

text \<open>
  The float operations \<open>getPressTemp\<close> applies: the conversion of an \<open>int\<close> operand
  in mixed arithmetic, a decimal literal, unary minus, \<open>+ - * /\<close> and
  \<open>round(x, ndigits)\<close>. Every divisor in the code is a non-zero literal, so no
  \<open>ZeroDivisionError\<close> arises.
\<close>

record 'f float_ops =
  float_of_int :: "int \<Rightarrow> 'f"
  float_literal :: "rat \<Rightarrow> 'f"
  float_neg :: "'f \<Rightarrow> 'f"
  float_add :: "'f \<Rightarrow> 'f \<Rightarrow> 'f"
  float_sub :: "'f \<Rightarrow> 'f \<Rightarrow> 'f"
  float_mul :: "'f \<Rightarrow> 'f \<Rightarrow> 'f"
  float_truediv :: "'f \<Rightarrow> 'f \<Rightarrow> 'f"
  float_round :: "'f \<Rightarrow> int \<Rightarrow> 'f"

subsection \<open>The measurement\<close>

text \<open>
  Lines 131-135 of \<open>getPressTemp\<close>. The eight subscripts are constants; the first
  one out of range raises \<open>IndexError\<close>, and nothing else happens in between.
\<close>

definition getPressTemp_coefficients :: "byte list \<Rightarrow> error + (int \<times> int \<times> int \<times> int)" where
  "getPressTemp_coefficients coefficientBytes =
     (if length coefficientBytes < 8 then Inl IndexError
      else Inr
        (push_bit 8 (uint (coefficientBytes ! 0)) OR uint (coefficientBytes ! 1),
         push_bit 8 (uint (coefficientBytes ! 2)) OR uint (coefficientBytes ! 3),
         push_bit 8 (uint (coefficientBytes ! 4)) OR uint (coefficientBytes ! 5),
         drop_bit 2 (push_bit 8 (uint (coefficientBytes ! 6)) OR uint (coefficientBytes ! 7))))"

text \<open>Lines 147-148.\<close>

definition getPressTemp_adc :: "byte list \<Rightarrow> error + (int \<times> int)" where
  "getPressTemp_adc adcBytes =
     (if length adcBytes < 4 then Inl IndexError
      else Inr
        (drop_bit 6 (push_bit 8 (uint (adcBytes ! 0)) OR uint (adcBytes ! 1)),
         drop_bit 6 (push_bit 8 (uint (adcBytes ! 2)) OR uint (adcBytes ! 3))))"

text \<open>Lines 151-154.\<close>

definition getPressTemp_signed :: "int \<times> int \<times> int \<times> int \<Rightarrow> error + (int \<times> int \<times> int \<times> int)" where
  "getPressTemp_signed raw =
     (case raw of (a0, b1, b2, c12) \<Rightarrow>
        err_bind (getSigned a0 16) (\<lambda>a0.
        err_bind (getSigned b1 16) (\<lambda>b1.
        err_bind (getSigned b2 16) (\<lambda>b2.
        err_bind (getSigned c12 14) (\<lambda>c12.
          Inr (a0, b1, b2, c12))))))"

text \<open>Lines 157-160.\<close>

definition getPressTemp_scale :: "'f float_ops \<Rightarrow> int \<times> int \<times> int \<times> int \<Rightarrow> 'f \<times> 'f \<times> 'f \<times> 'f" where
  "getPressTemp_scale fl coeffs =
     (case coeffs of (a0, b1, b2, c12) \<Rightarrow>
        (float_truediv fl (float_of_int fl a0) (float_literal fl 8),
         float_truediv fl (float_of_int fl b1) (float_literal fl 8192),
         float_truediv fl (float_of_int fl b2) (float_literal fl 16384),
         float_truediv fl (float_of_int fl c12) (float_literal fl 4194304)))"

text \<open>
  Lines 163-169. \<open>+\<close> and \<open>*\<close> associate to the left, \<open>*\<close> and \<open>/\<close> bind tighter than
  \<open>+\<close> and \<open>-\<close>, and \<open>-5.35\<close> is the negated literal \<open>5.35\<close>.
\<close>

definition getPressTemp_result :: "'f float_ops \<Rightarrow> 'f \<times> 'f \<times> 'f \<times> 'f \<Rightarrow> int \<Rightarrow> int \<Rightarrow> 'f list" where
  "getPressTemp_result fl scaled pAdc tAdc =
     (case scaled of (a0, b1, b2, c12) \<Rightarrow>
        (let pComp =
               float_add fl
                 (float_add fl a0
                    (float_mul fl
                       (float_add fl b1 (float_mul fl c12 (float_of_int fl tAdc)))
                       (float_of_int fl pAdc)))
                 (float_mul fl b2 (float_of_int fl tAdc));
             retVal0 =
               float_round fl
                 (float_add fl
                    (float_mul fl pComp
                       (float_truediv fl (float_literal fl 65) (float_literal fl 1023)))
                    (float_of_int fl 50))
                 2;
             retVal1 =
               float_round fl
                 (float_add fl
                    (float_truediv fl
                       (float_sub fl (float_of_int fl tAdc) (float_literal fl 498))
                       (float_neg fl (float_literal fl (535 / 100))))
                    (float_literal fl 25))
                 1
         in [retVal0, retVal1]))"

text \<open>\<open>getPressTemp\<close> (lines 118-169), in the order the statements run.\<close>

definition getPressTemp :: "'f float_ops \<Rightarrow> 'b i2c \<Rightarrow> mpl115a2 \<Rightarrow> (('b, 'f) world, 'f list) py" where
  "getPressTemp fl master self =
     py_bind (getattr self ''regA0MSB'') (\<lambda>regA0MSB.
     py_bind (getattr self ''regC12LSB'') (\<lambda>regC12LSB.
     py_bind (readRegRange master self regA0MSB regC12LSB) (\<lambda>coefficientBytes.
     py_bind (py_lift (getPressTemp_coefficients coefficientBytes)) (\<lambda>raw.
     py_bind (getattr self ''regConvert'') (\<lambda>regConvert.
     py_bind (writeReg master self regConvert 0x00) (\<lambda>_.
     py_bind (sleep (float_literal fl (4 / 100))) (\<lambda>_.
     py_bind (getattr self ''regPadcMSB'') (\<lambda>regPadcMSB.
     py_bind (getattr self ''regTadcLSB'') (\<lambda>regTadcLSB.
     py_bind (readRegRange master self regPadcMSB regTadcLSB) (\<lambda>adcBytes.
     py_bind (py_lift (getPressTemp_adc adcBytes)) (\<lambda>adc.
     py_bind (py_lift (getPressTemp_signed raw)) (\<lambda>coeffs.
       py_return (getPressTemp_result fl (getPressTemp_scale fl coeffs) (fst adc) (snd adc))))))))))))))"

subsection \<open>A bus that answers from a script\<close>

text \<open>
  A bus for running the model: its state is the list of the outcomes still to come,
  one per transaction. With the script exhausted every transaction fails.
\<close>

definition scripted :: "(string + byte list list) list i2c" where
  "scripted script msgs =
     (case script of
        [] \<Rightarrow> (Inl ''script exhausted'', [])
      | r # rest \<Rightarrow> (r, rest))"

subsection \<open>IEEE 754 binary64 on exact values\<close>

text \<open>
  A finite double is the rational it denotes. Every operation is the exact operation
  followed by rounding to the nearest number with a 53-bit significand, ties to even.
  The exponent is not bounded and zero has no sign: the model is the float arithmetic
  of CPython on values inside the normal range, which is where every value of
  \<open>getPressTemp\<close> lies. \<open>round(x, ndigits)\<close> rounds the exact value of \<open>x\<close> to
  \<open>ndigits\<close> decimals, ties to even, and converts the decimal back to the nearest
  double, as \<open>float.__round__\<close> does through its shortest-string routines.
\<close>

definition round_half_even :: "rat \<Rightarrow> int" where
  "round_half_even q =
     (let f = \<lfloor>q\<rfloor>; r = q - of_int f
      in if r < 1 / 2 then f else if 1 / 2 < r then f + 1 else if even f then f else f + 1)"

definition pow2 :: "int \<Rightarrow> rat" where
  "pow2 e = (if 0 \<le> e then 2 ^ nat e else 1 / 2 ^ nat (- e))"

definition pow10 :: "int \<Rightarrow> rat" where
  "pow10 e = (if 0 \<le> e then 10 ^ nat e else 1 / 10 ^ nat (- e))"

text \<open>The number of bits of a non-negative integer (Python's \<open>int.bit_length\<close>).\<close>

function bit_length :: "int \<Rightarrow> int" where
  "bit_length k = (if k \<le> 0 then 0 else 1 + bit_length (k div 2))"
  by pat_completeness auto
termination
  by (relation "measure nat") auto

text \<open>For \<open>q \<noteq> 0\<close>, the \<open>e\<close> with \<open>2 ^ e \<le> \<bar>q\<bar> < 2 ^ (e + 1)\<close>.\<close>

definition binade :: "rat \<Rightarrow> int" where
  "binade q =
     (if 1 \<le> \<bar>q\<bar> then bit_length \<lfloor>\<bar>q\<bar>\<rfloor> - 1
      else - bit_length (\<lceil>1 / \<bar>q\<bar>\<rceil> - 1))"

definition round_significand :: "rat \<Rightarrow> rat" where
  "round_significand q =
     (let ulp = pow2 (binade q - 52) in of_int (round_half_even (q / ulp)) * ulp)"

definition nearest_binary64 :: "rat \<Rightarrow> rat" where
  "nearest_binary64 q =
     (if 0 < q then round_significand q
      else if q < 0 then - round_significand (- q)
      else 0)"

definition py_round :: "rat \<Rightarrow> int \<Rightarrow> rat" where
  "py_round x ndigits =
     nearest_binary64 (of_int (round_half_even (x * pow10 ndigits)) / pow10 ndigits)"

definition binary64 :: "rat float_ops" where
  "binary64 =
     \<lparr>float_of_int = (\<lambda>i. nearest_binary64 (of_int i)),
      float_literal = nearest_binary64,
      float_neg = (\<lambda>x. - x),
      float_add = (\<lambda>x y. nearest_binary64 (x + y)),
      float_sub = (\<lambda>x y. nearest_binary64 (x - y)),
      float_mul = (\<lambda>x y. nearest_binary64 (x * y)),
      float_truediv = (\<lambda>x y. nearest_binary64 (x / y)),
      float_round = py_round\<rparr>"

section \<open>The specification's words\<close>

text \<open>
  Definitions that follow the specification (spec.md, section 4.3), to be compared
  with the ones above, which follow the code.
\<close>

text \<open>Step 2: a big-endian 16-bit unsigned value, most significant byte first.\<close>

definition spec_be16 :: "byte \<Rightarrow> byte \<Rightarrow> int" where
  "spec_be16 msb lsb = uint msb * 256 + uint lsb"

text \<open>Step 7: sign extension of a field of \<open>width\<close> bits.\<close>

definition spec_sign_extend :: "nat \<Rightarrow> int \<Rightarrow> int" where
  "spec_sign_extend width x = signed_take_bit (width - 1) x"

text \<open>Step 9: \<open>pComp = a0f + (b1f + c12f * tAdc) * pAdc + b2f * tAdc\<close>.\<close>

definition spec_pComp :: "'f float_ops \<Rightarrow> 'f \<Rightarrow> 'f \<Rightarrow> 'f \<Rightarrow> 'f \<Rightarrow> int \<Rightarrow> int \<Rightarrow> 'f" where
  "spec_pComp fl a0f b1f b2f c12f pAdc tAdc =
     float_add fl
       (float_add fl a0f
          (float_mul fl
             (float_add fl b1f (float_mul fl c12f (float_of_int fl tAdc)))
             (float_of_int fl pAdc)))
       (float_mul fl b2f (float_of_int fl tAdc))"

text \<open>Step 10: \<open>pressureKPa = round(pComp * (65.0 / 1023.0) + 50, 2)\<close>.\<close>

definition spec_pressureKPa :: "'f float_ops \<Rightarrow> 'f \<Rightarrow> 'f" where
  "spec_pressureKPa fl pComp =
     float_round fl
       (float_add fl
          (float_mul fl pComp (float_truediv fl (float_literal fl 65) (float_literal fl 1023)))
          (float_of_int fl 50))
       2"

text \<open>Step 11: \<open>temperatureC = round((tAdc - 498.0) / (-5.35) + 25.0, 1)\<close>.\<close>

definition spec_temperatureC :: "'f float_ops \<Rightarrow> int \<Rightarrow> 'f" where
  "spec_temperatureC fl tAdc =
     float_round fl
       (float_add fl
          (float_truediv fl
             (float_sub fl (float_of_int fl tAdc) (float_literal fl 498))
             (float_neg fl (float_literal fl (535 / 100))))
          (float_literal fl 25))
       1"

section \<open>Lemmas\<close>

subsection \<open>Sequencing\<close>

lemma py_bind_return [simp]: "py_bind (py_return x) f = f x"
  by (rule ext) (simp add: py_bind_def py_return_def)

lemma py_bind_raise [simp]: "py_bind (py_raise e) f = py_raise e"
  by (rule ext) (simp add: py_bind_def py_raise_def)

subsection \<open>The methods on an instance built by \<open>__init__\<close>\<close>

text \<open>
  On such an instance every attribute the methods read is known, and each method is a
  case distinction on what the bus answers.
\<close>

lemma getattr_init:
  "getattr (mpl115a2_init a) ''_mpl115a2__addr'' = py_return a"
  "getattr (mpl115a2_init a) ''regA0MSB'' = py_return 4"
  "getattr (mpl115a2_init a) ''regC12LSB'' = py_return 11"
  "getattr (mpl115a2_init a) ''regConvert'' = py_return 18"
  "getattr (mpl115a2_init a) ''regPadcMSB'' = py_return 0"
  "getattr (mpl115a2_init a) ''regTadcLSB'' = py_return 3"
  "getattr (mpl115a2_init a) ''regCfgA'' = py_raise (AttributeError ''regCfgA'')"
  by (simp_all add: getattr_def mpl115a2_init_def)

lemma readRegRange_init:
  "readRegRange master (mpl115a2_init addr) regStart regEnd s =
     (case master (bus s) [writing_bytes addr [regStart], reading addr (regEnd - regStart + 1)] of
        (r, b') \<Rightarrow>
          ((case r of
              Inl d \<Rightarrow> Inl (IOError d)
            | Inr [] \<Rightarrow> Inl IndexError
            | Inr (bs # _) \<Rightarrow> Inr bs),
           s\<lparr>bus := b',
              effects := effects s @
                [Transaction [writing_bytes addr [regStart], reading addr (regEnd - regStart + 1)]]\<rparr>))"
  by (simp add: readRegRange_def Let_def getattr_init py_bind_def transaction_def py_raise_def py_return_def
      split: prod.splits sum.splits list.splits)

lemma writeReg_init:
  "writeReg master (mpl115a2_init addr) register byte s =
     (case master (bus s) [writing_bytes addr [register, byte]] of
        (r, b') \<Rightarrow>
          ((case r of
              Inl d \<Rightarrow> Inl (IOError ''mpl115a2 IO Error: Failed to write to MPL115A2 sensor on I2C bus.'')
            | Inr _ \<Rightarrow> Inr ()),
           s\<lparr>bus := b', effects := effects s @ [Transaction [writing_bytes addr [register, byte]]]\<rparr>))"
  by (simp add: writeReg_def getattr_init py_except_IOError_def py_bind_def transaction_def
      py_raise_def py_return_def split: prod.splits sum.splits error.splits)

lemma readReg_init:
  "readReg master (mpl115a2_init addr) register s =
     (case master (bus s) [writing_bytes addr [register], reading addr 1] of
        (r, b') \<Rightarrow>
          ((case r of
              Inl d \<Rightarrow> Inl (IOError ''mpl115a2 IO Error: Failed to read MPL115A2 sensor on I2C bus.'')
            | Inr [] \<Rightarrow> Inl IndexError
            | Inr ([c] # _) \<Rightarrow> Inr (uint c)
            | Inr (_ # _) \<Rightarrow> Inl TypeError),
           s\<lparr>bus := b', effects := effects s @ [Transaction [writing_bytes addr [register], reading addr 1]]\<rparr>))"
  by (simp add: readReg_def getattr_init py_except_IOError_def py_bind_def transaction_def
      py_raise_def py_return_def split: prod.splits sum.splits error.splits list.splits)

lemma getPressTemp_init:
  "getPressTemp fl master (mpl115a2_init addr) s =
     (case master (bus s) [writing_bytes addr [4], reading addr 8] of
        (r1, b1) \<Rightarrow>
          (let s1 = s\<lparr>bus := b1,
                  effects := effects s @ [Transaction [writing_bytes addr [4], reading addr 8]]\<rparr>
           in case r1 of
                Inl d \<Rightarrow> (Inl (IOError d), s1)
              | Inr [] \<Rightarrow> (Inl IndexError, s1)
              | Inr (cb # _) \<Rightarrow>
                  (case getPressTemp_coefficients cb of
                     Inl e \<Rightarrow> (Inl e, s1)
                   | Inr raw \<Rightarrow>
                       (case master b1 [writing_bytes addr [18, 0]] of
                          (r2, b2) \<Rightarrow>
                            (case r2 of
                               Inl d \<Rightarrow>
                                 (Inl (IOError ''mpl115a2 IO Error: Failed to write to MPL115A2 sensor on I2C bus.''),
                                  s\<lparr>bus := b2,
                                     effects := effects s @
                                       [Transaction [writing_bytes addr [4], reading addr 8],
                                        Transaction [writing_bytes addr [18, 0]]]\<rparr>)
                             | Inr _ \<Rightarrow>
                                 (case master b2 [writing_bytes addr [0], reading addr 4] of
                                    (r3, b3) \<Rightarrow>
                                      (let s3 = s\<lparr>bus := b3,
                                              effects := effects s @
                                                [Transaction [writing_bytes addr [4], reading addr 8],
                                                 Transaction [writing_bytes addr [18, 0]],
                                                 Sleep (float_literal fl (4 / 100)),
                                                 Transaction [writing_bytes addr [0], reading addr 4]]\<rparr>
                                       in case r3 of
                                            Inl d \<Rightarrow> (Inl (IOError d), s3)
                                          | Inr [] \<Rightarrow> (Inl IndexError, s3)
                                          | Inr (ab # _) \<Rightarrow>
                                              (case getPressTemp_adc ab of
                                                 Inl e \<Rightarrow> (Inl e, s3)
                                               | Inr adc \<Rightarrow>
                                                   (case getPressTemp_signed raw of
                                                      Inl e \<Rightarrow> (Inl e, s3)
                                                    | Inr coeffs \<Rightarrow>
                                                        (Inr (getPressTemp_result fl
                                                               (getPressTemp_scale fl coeffs) (fst adc) (snd adc)),
                                                         s3))))))))))"
  by (simp add: getPressTemp_def getattr_init py_bind_def readRegRange_init writeReg_init
      sleep_def py_lift_def py_return_def Let_def
      split: prod.splits sum.splits list.splits)

subsection \<open>Integers\<close>

lemma getSigned_bit:
  "1 \<le> bits \<Longrightarrow>
   getSigned x bits = Inr (if bit x (nat (bits - 1)) then x - 2 ^ nat bits else x)"
  by (simp add: getSigned_def and_exp_eq_0_iff_not_bit)

lemma getSigned_signed_take_bit:
  assumes "0 \<le> x" "x < 2 ^ Suc n"
  shows "getSigned x (int (Suc n)) = Inr (signed_take_bit n x)"
proof -
  have "take_bit (Suc n) x = x"
    using assms by (simp add: take_bit_int_eq_self)
  then show ?thesis
    by (simp add: getSigned_def and_exp_eq_0_iff_not_bit signed_take_bit_eq_take_bit_minus nat_add_distrib)
qed

lemma assemble:
  "push_bit 8 (uint (hi :: 8 word)) OR uint (lo :: 8 word) = uint hi * 256 + uint lo"
proof -
  have "take_bit 8 (uint lo) = uint lo"
    using uint_bounded [of lo] by (simp add: take_bit_int_eq_self)
  then have "push_bit 8 (uint hi) OR uint lo = concat_bit 8 (uint lo) (uint hi)"
    by (simp add: concat_bit_def or.commute)
  also have "\<dots> = uint lo + push_bit 8 (uint hi)"
    using \<open>take_bit 8 (uint lo) = uint lo\<close> by (simp add: concat_bit_eq)
  finally show ?thesis by (simp add: push_bit_eq_mult)
qed

lemma spec_be16_range: "0 \<le> spec_be16 hi lo" "spec_be16 hi lo < 65536"
  using uint_bounded [of hi] uint_bounded [of lo] uint_nonnegative [of hi] uint_nonnegative [of lo]
  by (simp_all add: spec_be16_def)

lemma coefficients_8:
  "getPressTemp_coefficients [c0, c1, c2, c3, c4, c5, c6, c7] =
     Inr (spec_be16 c0 c1, spec_be16 c2 c3, spec_be16 c4 c5, spec_be16 c6 c7 div 4)"
  by (simp add: getPressTemp_coefficients_def assemble spec_be16_def drop_bit_eq_div)

lemma adc_4:
  "getPressTemp_adc [d0, d1, d2, d3] = Inr (spec_be16 d0 d1 div 64, spec_be16 d2 d3 div 64)"
  by (simp add: getPressTemp_adc_def assemble spec_be16_def drop_bit_eq_div)

lemma getSigned_16:
  "0 \<le> x \<Longrightarrow> x < 65536 \<Longrightarrow> getSigned x 16 = Inr (spec_sign_extend 16 x)"
  using getSigned_signed_take_bit [of x 15] by (simp add: spec_sign_extend_def)

lemma getSigned_14:
  "0 \<le> x \<Longrightarrow> x < 16384 \<Longrightarrow> getSigned x 14 = Inr (spec_sign_extend 14 x)"
  using getSigned_signed_take_bit [of x 13] by (simp add: spec_sign_extend_def)

lemma signed_be16:
  "getPressTemp_signed (spec_be16 c0 c1, spec_be16 c2 c3, spec_be16 c4 c5, spec_be16 c6 c7 div 4) =
     Inr (spec_sign_extend 16 (spec_be16 c0 c1), spec_sign_extend 16 (spec_be16 c2 c3),
          spec_sign_extend 16 (spec_be16 c4 c5), spec_sign_extend 14 (spec_be16 c6 c7 div 4))"
proof -
  have "0 \<le> spec_be16 c6 c7 div 4" "spec_be16 c6 c7 div 4 < 16384"
    using spec_be16_range [of c6 c7] by simp_all
  then show ?thesis
    by (simp add: getPressTemp_signed_def err_bind_def getSigned_16 getSigned_14 spec_be16_range)
qed

lemma spec_sign_extend_16_range:
  "- 32768 \<le> spec_sign_extend 16 x" "spec_sign_extend 16 x \<le> 32767"
  using signed_take_bit_int_greater_eq_minus_exp [of 15 x] signed_take_bit_int_less_exp [of 15 x]
  by (simp_all add: spec_sign_extend_def)

lemma spec_sign_extend_14_range:
  "- 8192 \<le> spec_sign_extend 14 x" "spec_sign_extend 14 x \<le> 8191"
  using signed_take_bit_int_greater_eq_minus_exp [of 13 x] signed_take_bit_int_less_exp [of 13 x]
  by (simp_all add: spec_sign_extend_def)

lemma coefficients_Inr:
  assumes "getPressTemp_coefficients cb = Inr raw"
  shows "raw = (spec_be16 (cb ! 0) (cb ! 1), spec_be16 (cb ! 2) (cb ! 3),
                spec_be16 (cb ! 4) (cb ! 5), spec_be16 (cb ! 6) (cb ! 7) div 4)"
  using assms
  by (auto simp: getPressTemp_coefficients_def assemble spec_be16_def drop_bit_eq_div
      split: if_splits)

lemma coefficients_total:
  "8 \<le> length cb \<Longrightarrow> \<exists>raw. getPressTemp_coefficients cb = Inr raw"
  by (simp add: getPressTemp_coefficients_def)

lemma adc_Inr:
  assumes "getPressTemp_adc ab = Inr (pAdc, tAdc)"
  shows "pAdc = spec_be16 (ab ! 0) (ab ! 1) div 64" "tAdc = spec_be16 (ab ! 2) (ab ! 3) div 64"
  using assms
  by (auto simp: getPressTemp_adc_def assemble spec_be16_def drop_bit_eq_div split: if_splits)

lemma adc_total:
  "4 \<le> length ab \<Longrightarrow> \<exists>adc. getPressTemp_adc ab = Inr adc"
  by (simp add: getPressTemp_adc_def)

lemma signed_of_coefficients:
  assumes "getPressTemp_coefficients cb = Inr raw"
  shows "getPressTemp_signed raw =
           Inr (spec_sign_extend 16 (fst raw), spec_sign_extend 16 (fst (snd raw)),
                spec_sign_extend 16 (fst (snd (snd raw))), spec_sign_extend 14 (snd (snd (snd raw))))"
  unfolding coefficients_Inr [OF assms] by (simp add: signed_be16)

subsection \<open>The formula\<close>

lemma getPressTemp_result_spec:
  "getPressTemp_result fl (a0f, b1f, b2f, c12f) pAdc tAdc =
     [spec_pressureKPa fl (spec_pComp fl a0f b1f b2f c12f pAdc tAdc), spec_temperatureC fl tAdc]"
  by (simp add: getPressTemp_result_def spec_pressureKPa_def spec_pComp_def spec_temperatureC_def)

subsection \<open>The guard of \<open>setReg\<close>\<close>

text \<open>
  On an instance that has the attributes \<open>regCfgA\<close> and \<open>regMode\<close>, \<open>setReg\<close> writes
  inside the range and raises \<open>ValueError\<close> outside of it, without a transaction.
\<close>

lemma setReg_guard:
  assumes "map_of self ''regCfgA'' = Some lo" and "map_of self ''regMode'' = Some hi"
  shows "setReg master self register value s =
           (if lo \<le> register \<and> register \<le> hi then writeReg master self register value s
            else (Inl (ValueError ''MPL115A2 register must be writable to set it.''), s))"
  using assms by (simp add: setReg_def getattr_def py_raise_def)

subsection \<open>The data sheet's worked example\<close>

text \<open>
  Coefficient bytes 3E CE B3 F9 C5 17 33 C8 and ADC bytes 66 80 7E C0: \<open>a0 = 16078\<close>,
  \<open>b1 = -19463\<close>, \<open>b2 = -15081\<close>, \<open>c12 = 3314\<close>, \<open>pAdc = 410\<close>, \<open>tAdc = 507\<close>.
\<close>

lemma signed_example:
  "getPressTemp_signed (0x3ECE, 0xB3F9, 0xC517, 0x0CF2) = Inr (16078, - 19463, - 15081, 3314)"
  by (simp add: getPressTemp_signed_def err_bind_def getSigned_bit bit_iff_odd_drop_bit
      drop_bit_eq_div)

lemma sign_extend_example:
  "spec_sign_extend 16 0x3ECE = 16078" "spec_sign_extend 16 0xB3F9 = - 19463"
  "spec_sign_extend 16 0xC517 = - 15081" "spec_sign_extend 14 0x0CF2 = 3314"
  using signed_example signed_be16 [of "0x3E" "0xCE" "0xB3" "0xF9" "0xC5" "0x17" "0x33" "0xC8"]
  by (simp_all add: spec_be16_def)

text \<open>
  The formula on the worked example in binary64, one rounded operation at a time.
\<close>

lemma example_result:
  "getPressTemp_result binary64 (getPressTemp_scale binary64 (16078, - 19463, - 15081, 3314)) 410 507 =
     [3398458500060283 / 35184372088832, 6558366957358285 / 281474976710656]"
proof -
  have a0f: "float_truediv binary64 (float_of_int binary64 16078) (float_literal binary64 8) =
      8039 / 4"
    by code_simp
  have b1f: "float_truediv binary64 (float_of_int binary64 (- 19463)) (float_literal binary64 8192) =
      - (19463 / 8192)"
    by code_simp
  have b2f: "float_truediv binary64 (float_of_int binary64 (- 15081)) (float_literal binary64 16384) =
      - (15081 / 16384)"
    by code_simp
  have c12f: "float_truediv binary64 (float_of_int binary64 3314) (float_literal binary64 4194304) =
      1657 / 2097152"
    by code_simp
  have m1: "float_mul binary64 (1657 / 2097152) (float_of_int binary64 507) =
      840099 / 2097152"
    by code_simp
  have s1: "float_add binary64 (- (19463 / 8192)) (840099 / 2097152) =
      - (4142429 / 2097152)"
    by code_simp
  have m2: "float_mul binary64 (- (4142429 / 2097152)) (float_of_int binary64 410) =
      - (849197945 / 1048576)"
    by code_simp
  have s2: "float_add binary64 (8039 / 4) (- (849197945 / 1048576)) =
      1258177671 / 1048576"
    by code_simp
  have m3: "float_mul binary64 (- (15081 / 16384)) (float_of_int binary64 507) =
      - (7646067 / 16384)"
    by code_simp
  have pComp: "float_add binary64 (1258177671 / 1048576) (- (7646067 / 16384)) =
      768829383 / 1048576"
    by code_simp
  have k: "float_truediv binary64 (float_literal binary64 65) (float_literal binary64 1023) =
      1144609875969041 / 18014398509481984"
    by code_simp
  have m4: "float_mul binary64 (768829383 / 1048576) (1144609875969041 / 18014398509481984) =
      6556583231069031 / 140737488355328"
    by code_simp
  have s3: "float_add binary64 (6556583231069031 / 140737488355328) (float_of_int binary64 50) =
      1699182206104429 / 17592186044416"
    by code_simp
  have r0: "float_round binary64 (1699182206104429 / 17592186044416) 2 =
      3398458500060283 / 35184372088832"
    by code_simp
  have d: "float_sub binary64 (float_of_int binary64 507) (float_literal binary64 498) =
      9"
    by code_simp
  have n: "float_neg binary64 (float_literal binary64 (535 / 100)) =
      - (3011782250804019 / 562949953421312)"
    by code_simp
  have q: "float_truediv binary64 (9) (- (3011782250804019 / 562949953421312)) =
      - (3788074452928455 / 2251799813685248)"
    by code_simp
  have s4: "float_add binary64 (- (3788074452928455 / 2251799813685248)) (float_literal binary64 25) =
      6563365111150343 / 281474976710656"
    by code_simp
  have r1: "float_round binary64 (6563365111150343 / 281474976710656) 1 =
      6558366957358285 / 281474976710656"
    by code_simp
  show ?thesis
    unfolding getPressTemp_result_def getPressTemp_scale_def prod.case Let_def
    by (simp only: a0f b1f b2f c12f m1 s1 m2 s2 m3 pComp k m4 s3 r0 d n q s4 r1)
qed

text \<open>
  The two values are the doubles nearest to 96.59 and 23.3: CPython prints them as
  \<open>96.59\<close> and \<open>23.3\<close>.
\<close>

lemma example_result_decimal:
  "nearest_binary64 (9659 / 100) = 3398458500060283 / 35184372088832"
  "nearest_binary64 (233 / 10) = 6558366957358285 / 281474976710656"
  by code_simp+

section \<open>The claims\<close>

subsection \<open>C1: \<open>setReg\<close>\<close>

text \<open>
  C1 (the code departs from it). The claim: \<open>setReg(addr, value)\<close> issues exactly one
  write when \<open>addr\<close> is in \<open>[0x00, 0x02]\<close> and raises \<open>ValueError\<close> without a
  transaction otherwise. \<open>__init__\<close> never assigns \<open>regCfgA\<close> or \<open>regMode\<close>, so on every
  instance it builds, for every register and value, \<open>setReg\<close> raises \<open>AttributeError\<close>
  when it reads \<open>self.regCfgA\<close>: nothing is written for \<open>addr = 0x01\<close>, and the error
  for \<open>addr = 0x05\<close> is not \<open>ValueError\<close>. The state, and with it the list of
  transactions, is unchanged.
\<close>

theorem setReg_raises_AttributeError:
  "setReg master (mpl115a2_init addr) register value s = (Inl (AttributeError ''regCfgA''), s)"
  by (simp add: setReg_def getattr_init py_raise_def)

subsection \<open>C2: the compensation formula\<close>

text \<open>
  C2. When the two range reads return the byte strings \<open>cb\<close> and \<open>ab\<close> and the trigger
  write succeeds, then for the scaled coefficients \<open>a0f\<close>, \<open>b1f\<close>, \<open>b2f\<close>, \<open>c12f\<close> and
  the ADC counts \<open>pAdc\<close>, \<open>tAdc\<close> the code decodes from them, \<open>getPressTemp\<close> returns the
  list of \<open>round(pComp * (65.0 / 1023.0) + 50, 2)\<close>, with
  \<open>pComp = a0f + (b1f + c12f * tAdc) * pAdc + b2f * tAdc\<close>, and
  \<open>round((tAdc - 498.0) / (-5.35) + 25.0, 1)\<close>, for every float arithmetic \<open>fl\<close>.
\<close>

theorem getPressTemp_formula:
  assumes "master (bus s) [writing_bytes addr [0x04], reading addr 8] = (Inr (cb # x), b1)"
    and "master b1 [writing_bytes addr [0x12, 0x00]] = (Inr y, b2)"
    and "master b2 [writing_bytes addr [0x00], reading addr 4] = (Inr (ab # z), b3)"
    and "getPressTemp_coefficients cb = Inr raw"
    and "getPressTemp_signed raw = Inr coeffs"
    and "getPressTemp_scale fl coeffs = (a0f, b1f, b2f, c12f)"
    and "getPressTemp_adc ab = Inr (pAdc, tAdc)"
  shows "fst (getPressTemp fl master (mpl115a2_init addr) s) =
           Inr [spec_pressureKPa fl (spec_pComp fl a0f b1f b2f c12f pAdc tAdc),
                spec_temperatureC fl tAdc]"
  using assms by (simp add: getPressTemp_init getPressTemp_result_spec)

text \<open>
  The worked example, on the scripted bus and in binary64: 96.59 kPa and 23.3 degrees,
  as the doubles CPython returns.
\<close>

theorem getPressTemp_formula_witness:
  "fst (getPressTemp binary64 scripted (mpl115a2_init 0x60)
          \<lparr>bus = [Inr [[0x3E, 0xCE, 0xB3, 0xF9, 0xC5, 0x17, 0x33, 0xC8]], Inr [],
                  Inr [[0x66, 0x80, 0x7E, 0xC0]]],
           effects = []\<rparr>) =
     Inr [3398458500060283 / 35184372088832, 6558366957358285 / 281474976710656]"
proof -
  let ?a0f = "float_truediv binary64 (float_of_int binary64 16078) (float_literal binary64 8)"
  let ?b1f = "float_truediv binary64 (float_of_int binary64 (- 19463)) (float_literal binary64 8192)"
  let ?b2f = "float_truediv binary64 (float_of_int binary64 (- 15081)) (float_literal binary64 16384)"
  let ?c12f = "float_truediv binary64 (float_of_int binary64 3314) (float_literal binary64 4194304)"
  have "fst (getPressTemp binary64 scripted (mpl115a2_init 0x60)
          \<lparr>bus = [Inr [[0x3E, 0xCE, 0xB3, 0xF9, 0xC5, 0x17, 0x33, 0xC8]], Inr [],
                  Inr [[0x66, 0x80, 0x7E, 0xC0]]],
           effects = []\<rparr>) =
        Inr [spec_pressureKPa binary64 (spec_pComp binary64 ?a0f ?b1f ?b2f ?c12f 410 507),
             spec_temperatureC binary64 507]"
  proof (rule getPressTemp_formula)
    show "scripted
            (bus \<lparr>bus = [Inr [[0x3E, 0xCE, 0xB3, 0xF9, 0xC5, 0x17, 0x33, 0xC8]], Inr [],
                         Inr [[0x66, 0x80, 0x7E, 0xC0]]],
                  effects = []\<rparr>)
            [writing_bytes 0x60 [0x04], reading 0x60 8] =
          (Inr ([0x3E, 0xCE, 0xB3, 0xF9, 0xC5, 0x17, 0x33, 0xC8] # []),
           [Inr [], Inr [[0x66, 0x80, 0x7E, 0xC0]]])"
      by (simp add: scripted_def)
    show "scripted [Inr [], Inr [[0x66, 0x80, 0x7E, 0xC0]]] [writing_bytes 0x60 [0x12, 0x00]] =
          (Inr [], [Inr [[0x66, 0x80, 0x7E, 0xC0]]])"
      by (simp add: scripted_def)
    show "scripted [Inr [[0x66, 0x80, 0x7E, 0xC0]]] [writing_bytes 0x60 [0x00], reading 0x60 4] =
          (Inr ([0x66, 0x80, 0x7E, 0xC0] # []), [])"
      by (simp add: scripted_def)
    show "getPressTemp_coefficients [0x3E, 0xCE, 0xB3, 0xF9, 0xC5, 0x17, 0x33, 0xC8] =
          Inr (0x3ECE, 0xB3F9, 0xC517, 0x0CF2)"
      by (simp add: coefficients_8 spec_be16_def)
    show "getPressTemp_signed (0x3ECE, 0xB3F9, 0xC517, 0x0CF2) =
          Inr (16078, - 19463, - 15081, 3314)"
      by (rule signed_example)
    show "getPressTemp_scale binary64 (16078, - 19463, - 15081, 3314) =
          (?a0f, ?b1f, ?b2f, ?c12f)"
      by (simp add: getPressTemp_scale_def)
    show "getPressTemp_adc [0x66, 0x80, 0x7E, 0xC0] = Inr (410, 507)"
      by (simp add: adc_4 spec_be16_def)
  qed
  moreover have "getPressTemp_scale binary64 (16078, - 19463, - 15081, 3314) =
      (?a0f, ?b1f, ?b2f, ?c12f)"
    by (simp add: getPressTemp_scale_def)
  ultimately show ?thesis
    using example_result getPressTemp_result_spec [of binary64 ?a0f ?b1f ?b2f ?c12f 410 507]
    by simp
qed

subsection \<open>C3: two's complement\<close>

text \<open>
  C3. For every bit width \<open>bits \<ge> 1\<close> (so for 16 and 14) and every integer \<open>x\<close>, in
  particular every \<open>x\<close> in \<open>[0, 2 ^ bits)\<close>, \<open>__getSigned(x, bits)\<close> returns
  \<open>x - 2 ^ bits\<close> when bit \<open>bits - 1\<close> of \<open>x\<close> is set and \<open>x\<close> unchanged otherwise.
\<close>

theorem getSigned_twos_complement:
  assumes "1 \<le> bits"
  shows "getSigned x bits = Inr (if bit x (nat (bits - 1)) then x - 2 ^ nat bits else x)"
  using assms by (rule getSigned_bit)

text \<open>The three examples of the specification: 0x8000 and 0x7FFF at 16 bits, 0x2000 at 14.\<close>

theorem getSigned_twos_complement_witness:
  "getSigned 0x8000 16 = Inr (- 32768) \<and> getSigned 0x7FFF 16 = Inr 32767 \<and>
   getSigned 0x2000 14 = Inr (- 8192)"
  using getSigned_twos_complement [of 16 "0x8000"] getSigned_twos_complement [of 16 "0x7FFF"]
    getSigned_twos_complement [of 14 "0x2000"]
  by (simp add: bit_iff_odd_drop_bit drop_bit_eq_div)

subsection \<open>C4: decoding the bytes\<close>

text \<open>
  C4. When the coefficient read returns the eight bytes \<open>c0 .. c7\<close>, the trigger write
  succeeds and the ADC read returns the four bytes \<open>d0 .. d3\<close>, then: the raw
  coefficients are the big-endian values of the byte pairs, the last one shifted right
  by 2; \<open>pAdc\<close> and \<open>tAdc\<close> are the big-endian values of the ADC byte pairs shifted right
  by 6; the sign conversion is the sign extension at 16 bits of \<open>a0\<close>, \<open>b1\<close>, \<open>b2\<close> and at
  14 bits of \<open>c12\<close>; and the value returned is the result of the formula on these
  values divided by 8.0, 8192.0, 16384.0 and 4194304.0 and on the two ADC counts.
\<close>

theorem getPressTemp_decode:
  assumes "master (bus s) [writing_bytes addr [0x04], reading addr 8] =
             (Inr ([c0, c1, c2, c3, c4, c5, c6, c7] # x), b1)"
    and "master b1 [writing_bytes addr [0x12, 0x00]] = (Inr y, b2)"
    and "master b2 [writing_bytes addr [0x00], reading addr 4] = (Inr ([d0, d1, d2, d3] # z), b3)"
  shows "getPressTemp_coefficients [c0, c1, c2, c3, c4, c5, c6, c7] =
           Inr (spec_be16 c0 c1, spec_be16 c2 c3, spec_be16 c4 c5, spec_be16 c6 c7 div 2 ^ 2)
       \<and> getPressTemp_adc [d0, d1, d2, d3] =
           Inr (spec_be16 d0 d1 div 2 ^ 6, spec_be16 d2 d3 div 2 ^ 6)
       \<and> getPressTemp_signed
             (spec_be16 c0 c1, spec_be16 c2 c3, spec_be16 c4 c5, spec_be16 c6 c7 div 2 ^ 2) =
           Inr (spec_sign_extend 16 (spec_be16 c0 c1), spec_sign_extend 16 (spec_be16 c2 c3),
                spec_sign_extend 16 (spec_be16 c4 c5),
                spec_sign_extend 14 (spec_be16 c6 c7 div 2 ^ 2))
       \<and> fst (getPressTemp fl master (mpl115a2_init addr) s) =
           Inr (getPressTemp_result fl
                  (float_truediv fl (float_of_int fl (spec_sign_extend 16 (spec_be16 c0 c1)))
                     (float_literal fl 8),
                   float_truediv fl (float_of_int fl (spec_sign_extend 16 (spec_be16 c2 c3)))
                     (float_literal fl 8192),
                   float_truediv fl (float_of_int fl (spec_sign_extend 16 (spec_be16 c4 c5)))
                     (float_literal fl 16384),
                   float_truediv fl
                     (float_of_int fl (spec_sign_extend 14 (spec_be16 c6 c7 div 2 ^ 2)))
                     (float_literal fl 4194304))
                  (spec_be16 d0 d1 div 2 ^ 6) (spec_be16 d2 d3 div 2 ^ 6))"
  using assms
  by (simp add: getPressTemp_init coefficients_8 adc_4 signed_be16 getPressTemp_scale_def)

text \<open>The worked example, on the scripted bus and in binary64.\<close>

theorem getPressTemp_decode_witness:
  "fst (getPressTemp binary64 scripted (mpl115a2_init 0x60)
          \<lparr>bus = [Inr [[0x3E, 0xCE, 0xB3, 0xF9, 0xC5, 0x17, 0x33, 0xC8]], Inr [],
                  Inr [[0x66, 0x80, 0x7E, 0xC0]]],
           effects = []\<rparr>) =
     Inr (getPressTemp_result binary64
            (float_truediv binary64 (float_of_int binary64 16078) (float_literal binary64 8),
             float_truediv binary64 (float_of_int binary64 (- 19463)) (float_literal binary64 8192),
             float_truediv binary64 (float_of_int binary64 (- 15081)) (float_literal binary64 16384),
             float_truediv binary64 (float_of_int binary64 3314) (float_literal binary64 4194304))
            410 507)"
  using getPressTemp_decode [where master = scripted and addr = "0x60" and fl = binary64
      and s = "\<lparr>bus = [Inr [[0x3E, 0xCE, 0xB3, 0xF9, 0xC5, 0x17, 0x33, 0xC8]], Inr [],
                       Inr [[0x66, 0x80, 0x7E, 0xC0]]], effects = []\<rparr>"
      and ?c0.0 = "0x3E" and ?c1.0 = "0xCE" and ?c2.0 = "0xB3" and ?c3.0 = "0xF9"
      and ?c4.0 = "0xC5" and ?c5.0 = "0x17" and ?c6.0 = "0x33" and ?c7.0 = "0xC8"
      and x = "[]" and ?b1.0 = "[Inr [], Inr [[0x66, 0x80, 0x7E, 0xC0]]]"
      and y = "[]" and ?b2.0 = "[Inr [[0x66, 0x80, 0x7E, 0xC0]]]"
      and ?d0.0 = "0x66" and ?d1.0 = "0x80" and ?d2.0 = "0x7E" and ?d3.0 = "0xC0"
      and z = "[]" and ?b3.0 = "[]"]
  by (simp add: scripted_def spec_be16_def sign_extend_example)

subsection \<open>C5: a failing bus\<close>

text \<open>
  C5. If the coefficient read fails, \<open>getPressTemp\<close> raises the \<open>IOError\<close> and the only
  effect is that one read: no write, no sleep, no second attempt, no value. If the
  trigger write fails, it raises \<open>IOError\<close> after the read and the write and nothing
  else. If the ADC read fails, it raises the \<open>IOError\<close> after the read, the write, the
  sleep and the failed read. (The write is reached only when the coefficient read
  returned at least the eight bytes the code subscripts.)
\<close>

theorem getPressTemp_transport_failure:
  "(master (bus s) [writing_bytes addr [0x04], reading addr 8] = (Inl d, b1) \<longrightarrow>
      getPressTemp fl master (mpl115a2_init addr) s =
        (Inl (IOError d),
         s\<lparr>bus := b1,
            effects := effects s @ [Transaction [writing_bytes addr [0x04], reading addr 8]]\<rparr>))
   \<and> (master (bus s) [writing_bytes addr [0x04], reading addr 8] = (Inr (cb # x), b1) \<and>
        8 \<le> length cb \<and>
        master b1 [writing_bytes addr [0x12, 0x00]] = (Inl d, b2) \<longrightarrow>
      getPressTemp fl master (mpl115a2_init addr) s =
        (Inl (IOError ''mpl115a2 IO Error: Failed to write to MPL115A2 sensor on I2C bus.''),
         s\<lparr>bus := b2,
            effects := effects s @
              [Transaction [writing_bytes addr [0x04], reading addr 8],
               Transaction [writing_bytes addr [0x12, 0x00]]]\<rparr>))
   \<and> (master (bus s) [writing_bytes addr [0x04], reading addr 8] = (Inr (cb # x), b1) \<and>
        8 \<le> length cb \<and>
        master b1 [writing_bytes addr [0x12, 0x00]] = (Inr y, b2) \<and>
        master b2 [writing_bytes addr [0x00], reading addr 4] = (Inl d, b3) \<longrightarrow>
      getPressTemp fl master (mpl115a2_init addr) s =
        (Inl (IOError d),
         s\<lparr>bus := b3,
            effects := effects s @
              [Transaction [writing_bytes addr [0x04], reading addr 8],
               Transaction [writing_bytes addr [0x12, 0x00]],
               Sleep (float_literal fl (4 / 100)),
               Transaction [writing_bytes addr [0x00], reading addr 4]]\<rparr>))"
  by (simp add: getPressTemp_init getPressTemp_coefficients_def)

text \<open>Three runs on the scripted bus, failing at the first, second and third transaction.\<close>

theorem getPressTemp_transport_failure_witness:
  "getPressTemp binary64 scripted (mpl115a2_init 0x60)
     \<lparr>bus = [Inl ''[Errno 121] Remote I/O error''], effects = []\<rparr> =
     (Inl (IOError ''[Errno 121] Remote I/O error''),
      \<lparr>bus = [], effects = [Transaction [writing_bytes 0x60 [0x04], reading 0x60 8]]\<rparr>)
   \<and> getPressTemp binary64 scripted (mpl115a2_init 0x60)
     \<lparr>bus = [Inr [[0x3E, 0xCE, 0xB3, 0xF9, 0xC5, 0x17, 0x33, 0xC8]],
             Inl ''[Errno 121] Remote I/O error''],
      effects = []\<rparr> =
     (Inl (IOError ''mpl115a2 IO Error: Failed to write to MPL115A2 sensor on I2C bus.''),
      \<lparr>bus = [],
         effects = [Transaction [writing_bytes 0x60 [0x04], reading 0x60 8],
                    Transaction [writing_bytes 0x60 [0x12, 0x00]]]\<rparr>)
   \<and> getPressTemp binary64 scripted (mpl115a2_init 0x60)
     \<lparr>bus = [Inr [[0x3E, 0xCE, 0xB3, 0xF9, 0xC5, 0x17, 0x33, 0xC8]], Inr [],
             Inl ''[Errno 121] Remote I/O error''],
      effects = []\<rparr> =
     (Inl (IOError ''[Errno 121] Remote I/O error''),
      \<lparr>bus = [],
         effects = [Transaction [writing_bytes 0x60 [0x04], reading 0x60 8],
                    Transaction [writing_bytes 0x60 [0x12, 0x00]],
                    Sleep (float_literal binary64 (4 / 100)),
                    Transaction [writing_bytes 0x60 [0x00], reading 0x60 4]]\<rparr>)"
  using
    getPressTemp_transport_failure [where master = scripted and addr = "0x60" and fl = binary64
      and s = "\<lparr>bus = [Inl ''[Errno 121] Remote I/O error''], effects = []\<rparr>"
      and d = "''[Errno 121] Remote I/O error''" and ?b1.0 = "[]"]
    getPressTemp_transport_failure [where master = scripted and addr = "0x60" and fl = binary64
      and s = "\<lparr>bus = [Inr [[0x3E, 0xCE, 0xB3, 0xF9, 0xC5, 0x17, 0x33, 0xC8]],
                       Inl ''[Errno 121] Remote I/O error''], effects = []\<rparr>"
      and cb = "[0x3E, 0xCE, 0xB3, 0xF9, 0xC5, 0x17, 0x33, 0xC8]" and x = "[]"
      and ?b1.0 = "[Inl ''[Errno 121] Remote I/O error'']"
      and d = "''[Errno 121] Remote I/O error''" and ?b2.0 = "[]"]
    getPressTemp_transport_failure [where master = scripted and addr = "0x60" and fl = binary64
      and s = "\<lparr>bus = [Inr [[0x3E, 0xCE, 0xB3, 0xF9, 0xC5, 0x17, 0x33, 0xC8]], Inr [],
                       Inl ''[Errno 121] Remote I/O error''], effects = []\<rparr>"
      and cb = "[0x3E, 0xCE, 0xB3, 0xF9, 0xC5, 0x17, 0x33, 0xC8]" and x = "[]"
      and ?b1.0 = "[Inr [], Inl ''[Errno 121] Remote I/O error'']"
      and y = "[]" and ?b2.0 = "[Inl ''[Errno 121] Remote I/O error'']"
      and d = "''[Errno 121] Remote I/O error''" and ?b3.0 = "[]"]
  by (simp add: scripted_def)

subsection \<open>C6: the transactions of a successful call\<close>

text \<open>
  C6. Every call of \<open>getPressTemp\<close> that returns a value, from any state, has added
  exactly these effects, in this order: one transaction that addresses register 0x04
  and reads 8 bytes (registers 0x04 to 0x0B), one transaction that writes 0x00 to
  register 0x12, the sleep, and one transaction that addresses register 0x00 and reads
  4 bytes (registers 0x00 to 0x03). Each group of bytes comes from one transaction, and
  the coefficients are read in every call.
\<close>

theorem getPressTemp_io_sequence:
  assumes "getPressTemp fl master (mpl115a2_init addr) s = (Inr r, s')"
  shows "effects s' = effects s @
           [Transaction [writing_bytes addr [0x04], reading addr 8],
            Transaction [writing_bytes addr [0x12, 0x00]],
            Sleep (float_literal fl (4 / 100)),
            Transaction [writing_bytes addr [0x00], reading addr 4]]"
  using assms
  by (auto simp: getPressTemp_init Let_def split: prod.splits sum.splits list.splits)

text \<open>The worked example on the scripted bus.\<close>

theorem getPressTemp_io_sequence_witness:
  "effects (snd (getPressTemp binary64 scripted (mpl115a2_init 0x60)
      \<lparr>bus = [Inr [[0x3E, 0xCE, 0xB3, 0xF9, 0xC5, 0x17, 0x33, 0xC8]], Inr [],
              Inr [[0x66, 0x80, 0x7E, 0xC0]]],
       effects = []\<rparr>)) =
     [Transaction [writing_bytes 0x60 [0x04], reading 0x60 8],
      Transaction [writing_bytes 0x60 [0x12, 0x00]],
      Sleep (float_literal binary64 (4 / 100)),
      Transaction [writing_bytes 0x60 [0x00], reading 0x60 4]]"
proof -
  let ?s = "\<lparr>bus = [Inr [[0x3E, 0xCE, 0xB3, 0xF9, 0xC5, 0x17, 0x33, 0xC8]], Inr [],
                     Inr [[0x66, 0x80, 0x7E, 0xC0]]],
              effects = ([] :: rat effect list)\<rparr>"
  let ?run = "getPressTemp binary64 scripted (mpl115a2_init 0x60) ?s"
  have "fst ?run =
          Inr (getPressTemp_result binary64
                 (getPressTemp_scale binary64 (16078, - 19463, - 15081, 3314)) 410 507)"
    by (simp add: getPressTemp_init scripted_def coefficients_8 adc_4 spec_be16_def signed_example)
  then have "?run =
          (Inr (getPressTemp_result binary64
                  (getPressTemp_scale binary64 (16078, - 19463, - 15081, 3314)) 410 507),
           snd ?run)"
    by (simp add: prod_eq_iff)
  from getPressTemp_io_sequence [OF this] show ?thesis
    by simp
qed

subsection \<open>C7: the description of an \<open>IOError\<close>\<close>

text \<open>
  C7 (the code departs from it). The claim: every bus failure reaches the caller as an
  \<open>IOError\<close> whose description names the driver and tells a read from a write.
  \<open>__readReg\<close> and \<open>__writeReg\<close> do replace the bus's error by such an \<open>IOError\<close>, but
  \<open>__readRegRange\<close> has no \<open>try\<close>: when the bus fails with the description \<open>d\<close>, the
  caller of \<open>__readRegRange\<close>, and so the caller of \<open>getPressTemp\<close>, gets the bus's own
  \<open>IOError\<close> with \<open>d\<close> unchanged, whatever \<open>d\<close> is.
\<close>

theorem readRegRange_propagates_unchanged:
  "fst (readRegRange scripted (mpl115a2_init addr) regStart regEnd
          \<lparr>bus = Inl d # rest, effects = es\<rparr>) = Inl (IOError d)
   \<and> fst (getPressTemp fl scripted (mpl115a2_init addr) \<lparr>bus = Inl d # rest, effects = es\<rparr>) =
       Inl (IOError d)
   \<and> fst (readReg scripted (mpl115a2_init addr) register \<lparr>bus = Inl d # rest, effects = es\<rparr>) =
       Inl (IOError ''mpl115a2 IO Error: Failed to read MPL115A2 sensor on I2C bus.'')
   \<and> fst (writeReg scripted (mpl115a2_init addr) register byte
            \<lparr>bus = Inl d # rest, effects = es\<rparr>) =
       Inl (IOError ''mpl115a2 IO Error: Failed to write to MPL115A2 sensor on I2C bus.'')"
  by (simp add: readRegRange_init getPressTemp_init readReg_init writeReg_init scripted_def)

subsection \<open>C8: the conversion wait\<close>

text \<open>
  C8. In every call of \<open>getPressTemp\<close> in which the coefficient read returned the bytes
  the code subscripts and the trigger write succeeded, the effects added are exactly
  the coefficient read, the trigger write, a sleep and the ADC read, in this order and
  whatever the ADC read then answers: the sleep happens, after the write and before the
  ADC read, and nothing lets a call skip it. In every call at all, the effects added are
  that sequence or the coefficient read alone or that read and the trigger write, so
  the ADC read never happens without the sleep just before it. The duration passed to
  \<open>time.sleep\<close> is the literal 0.04, the same in every call, and in binary64 that
  double is not below 40 ms. (How long \<open>time.sleep\<close> then blocks is its own contract: at
  least the duration it is given.)
\<close>

theorem getPressTemp_conversion_wait:
  "(master (bus s) [writing_bytes addr [0x04], reading addr 8] = (Inr (cb # x), b1) \<and>
    8 \<le> length cb \<and>
    master b1 [writing_bytes addr [0x12, 0x00]] = (Inr y, b2) \<longrightarrow>
      effects (snd (getPressTemp fl master (mpl115a2_init addr) s)) =
        effects s @
          [Transaction [writing_bytes addr [0x04], reading addr 8],
           Transaction [writing_bytes addr [0x12, 0x00]],
           Sleep (float_literal fl (4 / 100)),
           Transaction [writing_bytes addr [0x00], reading addr 4]])
   \<and> effects (snd (getPressTemp fl master (mpl115a2_init addr) s)) \<in>
     {effects s @ [Transaction [writing_bytes addr [0x04], reading addr 8]],
      effects s @
        [Transaction [writing_bytes addr [0x04], reading addr 8],
         Transaction [writing_bytes addr [0x12, 0x00]]],
      effects s @
        [Transaction [writing_bytes addr [0x04], reading addr 8],
         Transaction [writing_bytes addr [0x12, 0x00]],
         Sleep (float_literal fl (4 / 100)),
         Transaction [writing_bytes addr [0x00], reading addr 4]]}
   \<and> 40 / 1000 \<le> float_literal binary64 (4 / 100)"
proof (intro conjI impI)
  assume "master (bus s) [writing_bytes addr [0x04], reading addr 8] = (Inr (cb # x), b1) \<and>
    8 \<le> length cb \<and>
    master b1 [writing_bytes addr [0x12, 0x00]] = (Inr y, b2)"
  then show "effects (snd (getPressTemp fl master (mpl115a2_init addr) s)) =
        effects s @
          [Transaction [writing_bytes addr [0x04], reading addr 8],
           Transaction [writing_bytes addr [0x12, 0x00]],
           Sleep (float_literal fl (4 / 100)),
           Transaction [writing_bytes addr [0x00], reading addr 4]]"
    by (simp add: getPressTemp_init getPressTemp_coefficients_def Let_def
        split: prod.splits sum.splits list.splits)
next
  show "effects (snd (getPressTemp fl master (mpl115a2_init addr) s)) \<in>
     {effects s @ [Transaction [writing_bytes addr [0x04], reading addr 8]],
      effects s @
        [Transaction [writing_bytes addr [0x04], reading addr 8],
         Transaction [writing_bytes addr [0x12, 0x00]]],
      effects s @
        [Transaction [writing_bytes addr [0x04], reading addr 8],
         Transaction [writing_bytes addr [0x12, 0x00]],
         Sleep (float_literal fl (4 / 100)),
         Transaction [writing_bytes addr [0x00], reading addr 4]]}"
    by (simp add: getPressTemp_init Let_def split: prod.splits sum.splits list.splits)
next
  have "nearest_binary64 (4 / 100) = 5764607523034235 / 144115188075855872"
    by code_simp
  then show "40 / 1000 \<le> float_literal binary64 (4 / 100)"
    by (simp add: binary64_def)
qed

text \<open>
  Two runs on the scripted bus in which the trigger write succeeds: one whose ADC read
  returns the bytes of the worked example and one whose ADC read fails. Both have slept
  between the write and the ADC read, for the double nearest to 0.04.
\<close>

theorem getPressTemp_conversion_wait_witness:
  "effects (snd (getPressTemp binary64 scripted (mpl115a2_init 0x60)
      \<lparr>bus = [Inr [[0x3E, 0xCE, 0xB3, 0xF9, 0xC5, 0x17, 0x33, 0xC8]], Inr [],
              Inr [[0x66, 0x80, 0x7E, 0xC0]]],
       effects = []\<rparr>)) =
     [Transaction [writing_bytes 0x60 [0x04], reading 0x60 8],
      Transaction [writing_bytes 0x60 [0x12, 0x00]],
      Sleep (5764607523034235 / 144115188075855872),
      Transaction [writing_bytes 0x60 [0x00], reading 0x60 4]]
   \<and> effects (snd (getPressTemp binary64 scripted (mpl115a2_init 0x60)
      \<lparr>bus = [Inr [[0x3E, 0xCE, 0xB3, 0xF9, 0xC5, 0x17, 0x33, 0xC8]], Inr [],
              Inl ''[Errno 121] Remote I/O error''],
       effects = []\<rparr>)) =
     [Transaction [writing_bytes 0x60 [0x04], reading 0x60 8],
      Transaction [writing_bytes 0x60 [0x12, 0x00]],
      Sleep (5764607523034235 / 144115188075855872),
      Transaction [writing_bytes 0x60 [0x00], reading 0x60 4]]
   \<and> (40 / 1000 :: rat) \<le> 5764607523034235 / 144115188075855872"
proof -
  have lit: "float_literal binary64 (1 / 25) = 5764607523034235 / 144115188075855872"
  proof -
    have "nearest_binary64 (1 / 25) = 5764607523034235 / 144115188075855872"
      by code_simp
    then show ?thesis by (simp add: binary64_def)
  qed
  show ?thesis
    using
      getPressTemp_conversion_wait [where master = scripted and addr = "0x60" and fl = binary64
        and s = "\<lparr>bus = [Inr [[0x3E, 0xCE, 0xB3, 0xF9, 0xC5, 0x17, 0x33, 0xC8]], Inr [],
                         Inr [[0x66, 0x80, 0x7E, 0xC0]]], effects = []\<rparr>"
        and cb = "[0x3E, 0xCE, 0xB3, 0xF9, 0xC5, 0x17, 0x33, 0xC8]" and x = "[]"
        and ?b1.0 = "[Inr [], Inr [[0x66, 0x80, 0x7E, 0xC0]]]"
        and y = "[]" and ?b2.0 = "[Inr [[0x66, 0x80, 0x7E, 0xC0]]]"]
      getPressTemp_conversion_wait [where master = scripted and addr = "0x60" and fl = binary64
        and s = "\<lparr>bus = [Inr [[0x3E, 0xCE, 0xB3, 0xF9, 0xC5, 0x17, 0x33, 0xC8]], Inr [],
                         Inl ''[Errno 121] Remote I/O error''], effects = []\<rparr>"
        and cb = "[0x3E, 0xCE, 0xB3, 0xF9, 0xC5, 0x17, 0x33, 0xC8]" and x = "[]"
        and ?b1.0 = "[Inr [], Inl ''[Errno 121] Remote I/O error'']"
        and y = "[]" and ?b2.0 = "[Inl ''[Errno 121] Remote I/O error'']"]
    by (simp add: scripted_def lit)
qed

subsection \<open>C9: ranges of the decoded values\<close>

text \<open>
  C9. Whatever bytes the bus returns, the values \<open>getPressTemp\<close> decodes from them are
  in range: the sign conversion of the assembled coefficients succeeds with
  \<open>a0\<close>, \<open>b1\<close>, \<open>b2\<close> in \<open>[-32768, 32767]\<close> and \<open>c12\<close> in \<open>[-8192, 8191]\<close>, and
  \<open>pAdc\<close>, \<open>tAdc\<close> are in \<open>[0, 1023]\<close>. The bytes are elements of a \<open>bytearray\<close>, that
  is \<open>8 word\<close>, so each lies in \<open>[0, 255]\<close>.
\<close>

theorem decoded_ranges:
  assumes "getPressTemp_coefficients cb = Inr raw"
    and "getPressTemp_adc ab = Inr (pAdc, tAdc)"
  shows "\<exists>a0 b1 b2 c12.
           getPressTemp_signed raw = Inr (a0, b1, b2, c12) \<and>
           - 32768 \<le> a0 \<and> a0 \<le> 32767 \<and>
           - 32768 \<le> b1 \<and> b1 \<le> 32767 \<and>
           - 32768 \<le> b2 \<and> b2 \<le> 32767 \<and>
           - 8192 \<le> c12 \<and> c12 \<le> 8191 \<and>
           0 \<le> pAdc \<and> pAdc \<le> 1023 \<and> 0 \<le> tAdc \<and> tAdc \<le> 1023"
proof -
  have p: "0 \<le> pAdc \<and> pAdc \<le> 1023"
    using adc_Inr(1) [OF assms(2)] spec_be16_range [of "ab ! 0" "ab ! 1"] by arith
  have t: "0 \<le> tAdc \<and> tAdc \<le> 1023"
    using adc_Inr(2) [OF assms(2)] spec_be16_range [of "ab ! 2" "ab ! 3"] by arith
  show ?thesis
    using signed_of_coefficients [OF assms(1)] p t
      spec_sign_extend_16_range spec_sign_extend_14_range
    by simp
qed

text \<open>The coefficient and ADC bytes of the worked example.\<close>

theorem decoded_ranges_witness:
  "\<exists>a0 b1 b2 c12.
     getPressTemp_signed (0x3ECE, 0xB3F9, 0xC517, 0x0CF2) = Inr (a0, b1, b2, c12) \<and>
     - 32768 \<le> a0 \<and> a0 \<le> 32767 \<and>
     - 32768 \<le> b1 \<and> b1 \<le> 32767 \<and>
     - 32768 \<le> b2 \<and> b2 \<le> 32767 \<and>
     - 8192 \<le> c12 \<and> c12 \<le> 8191 \<and>
     0 \<le> (410 :: int) \<and> (410 :: int) \<le> 1023 \<and> 0 \<le> (507 :: int) \<and> (507 :: int) \<le> 1023"
proof -
  have c: "getPressTemp_coefficients [0x3E, 0xCE, 0xB3, 0xF9, 0xC5, 0x17, 0x33, 0xC8] =
             Inr (0x3ECE, 0xB3F9, 0xC517, 0x0CF2)"
    by (simp add: coefficients_8 spec_be16_def)
  have a: "getPressTemp_adc [0x66, 0x80, 0x7E, 0xC0] = Inr (410, 507)"
    by (simp add: adc_4 spec_be16_def)
  show ?thesis by (rule decoded_ranges [OF c a])
qed

subsection \<open>C10: the result depends on the bytes only\<close>

text \<open>
  C10. Take two runs of \<open>getPressTemp\<close>, on any two buses, bus states, device addresses
  and earlier effects, under the same float arithmetic. If in both the coefficient
  read returns the same bytes \<open>cb\<close> (at least the 8 asked for), the trigger write
  succeeds and the ADC read returns the same bytes \<open>ab\<close> (at least the 4 asked for),
  then both return the same list, and it has exactly two elements, the pressure and
  the temperature.
\<close>

theorem getPressTemp_deterministic:
  assumes "master1 (bus s1) [writing_bytes addr1 [0x04], reading addr1 8] = (Inr (cb # x1), b1)"
    and "master1 b1 [writing_bytes addr1 [0x12, 0x00]] = (Inr y1, b2)"
    and "master1 b2 [writing_bytes addr1 [0x00], reading addr1 4] = (Inr (ab # z1), b3)"
    and "master2 (bus s2) [writing_bytes addr2 [0x04], reading addr2 8] = (Inr (cb # x2), c1)"
    and "master2 c1 [writing_bytes addr2 [0x12, 0x00]] = (Inr y2, c2)"
    and "master2 c2 [writing_bytes addr2 [0x00], reading addr2 4] = (Inr (ab # z2), c3)"
    and "8 \<le> length cb" and "4 \<le> length ab"
  shows "\<exists>pressureKPa temperatureC.
           fst (getPressTemp fl master1 (mpl115a2_init addr1) s1) = Inr [pressureKPa, temperatureC] \<and>
           fst (getPressTemp fl master2 (mpl115a2_init addr2) s2) = Inr [pressureKPa, temperatureC]"
proof -
  obtain raw where raw: "getPressTemp_coefficients cb = Inr raw"
    using coefficients_total [OF assms(7)] by blast
  obtain pAdc tAdc where adc: "getPressTemp_adc ab = Inr (pAdc, tAdc)"
    using adc_total [OF assms(8)] by fastforce
  obtain a0f b1f b2f c12f where
    scaled: "getPressTemp_scale fl
               (spec_sign_extend 16 (fst raw), spec_sign_extend 16 (fst (snd raw)),
                spec_sign_extend 16 (fst (snd (snd raw))),
                spec_sign_extend 14 (snd (snd (snd raw)))) = (a0f, b1f, b2f, c12f)"
    by (metis prod_cases4)
  have "fst (getPressTemp fl master1 (mpl115a2_init addr1) s1) =
          Inr (getPressTemp_result fl (a0f, b1f, b2f, c12f) pAdc tAdc)"
    using assms(1-3) raw adc scaled signed_of_coefficients [OF raw]
    by (simp add: getPressTemp_init)
  moreover have "fst (getPressTemp fl master2 (mpl115a2_init addr2) s2) =
          Inr (getPressTemp_result fl (a0f, b1f, b2f, c12f) pAdc tAdc)"
    using assms(4-6) raw adc scaled signed_of_coefficients [OF raw]
    by (simp add: getPressTemp_init)
  ultimately show ?thesis
    by (simp add: getPressTemp_result_spec)
qed

text \<open>
  Two runs on the same bytes: device addresses 0x60 and 0x61, and the second bus
  returns more byte strings than asked for and starts after an earlier sleep.
\<close>

theorem getPressTemp_deterministic_witness:
  "\<exists>pressureKPa temperatureC.
     fst (getPressTemp binary64 scripted (mpl115a2_init 0x60)
            \<lparr>bus = [Inr [[0x3E, 0xCE, 0xB3, 0xF9, 0xC5, 0x17, 0x33, 0xC8]], Inr [],
                    Inr [[0x66, 0x80, 0x7E, 0xC0]]],
             effects = []\<rparr>) = Inr [pressureKPa, temperatureC] \<and>
     fst (getPressTemp binary64 scripted (mpl115a2_init 0x61)
            \<lparr>bus = [Inr [[0x3E, 0xCE, 0xB3, 0xF9, 0xC5, 0x17, 0x33, 0xC8], [0xFF]], Inr [[0x00]],
                    Inr [[0x66, 0x80, 0x7E, 0xC0]], Inl ''unused''],
             effects = [Sleep 1]\<rparr>) = Inr [pressureKPa, temperatureC]"
proof (rule getPressTemp_deterministic)
  show "scripted
          (bus \<lparr>bus = [Inr [[0x3E, 0xCE, 0xB3, 0xF9, 0xC5, 0x17, 0x33, 0xC8]], Inr [],
                       Inr [[0x66, 0x80, 0x7E, 0xC0]]],
                effects = []\<rparr>)
          [writing_bytes 0x60 [0x04], reading 0x60 8] =
        (Inr ([0x3E, 0xCE, 0xB3, 0xF9, 0xC5, 0x17, 0x33, 0xC8] # []),
         [Inr [], Inr [[0x66, 0x80, 0x7E, 0xC0]]])"
    by (simp add: scripted_def)
  show "scripted [Inr [], Inr [[0x66, 0x80, 0x7E, 0xC0]]] [writing_bytes 0x60 [0x12, 0x00]] =
        (Inr [], [Inr [[0x66, 0x80, 0x7E, 0xC0]]])"
    by (simp add: scripted_def)
  show "scripted [Inr [[0x66, 0x80, 0x7E, 0xC0]]] [writing_bytes 0x60 [0x00], reading 0x60 4] =
        (Inr ([0x66, 0x80, 0x7E, 0xC0] # []), [])"
    by (simp add: scripted_def)
  show "scripted
          (bus \<lparr>bus = [Inr [[0x3E, 0xCE, 0xB3, 0xF9, 0xC5, 0x17, 0x33, 0xC8], [0xFF]],
                       Inr [[0x00]], Inr [[0x66, 0x80, 0x7E, 0xC0]], Inl ''unused''],
                effects = [Sleep 1]\<rparr>)
          [writing_bytes 0x61 [0x04], reading 0x61 8] =
        (Inr ([0x3E, 0xCE, 0xB3, 0xF9, 0xC5, 0x17, 0x33, 0xC8] # [[0xFF]]),
         [Inr [[0x00]], Inr [[0x66, 0x80, 0x7E, 0xC0]], Inl ''unused''])"
    by (simp add: scripted_def)
  show "scripted [Inr [[0x00]], Inr [[0x66, 0x80, 0x7E, 0xC0]], Inl ''unused'']
          [writing_bytes 0x61 [0x12, 0x00]] =
        (Inr [[0x00]], [Inr [[0x66, 0x80, 0x7E, 0xC0]], Inl ''unused''])"
    by (simp add: scripted_def)
  show "scripted [Inr [[0x66, 0x80, 0x7E, 0xC0]], Inl ''unused'']
          [writing_bytes 0x61 [0x00], reading 0x61 4] =
        (Inr ([0x66, 0x80, 0x7E, 0xC0] # []), [Inl ''unused''])"
    by (simp add: scripted_def)
  show "8 \<le> length [0x3E, 0xCE, 0xB3, 0xF9, 0xC5, 0x17, 0x33, 0xC8 :: byte]"
    by simp
  show "4 \<le> length [0x66, 0x80, 0x7E, 0xC0 :: byte]"
    by simp
qed

end
